theory Spec2Isabelle
  imports
    Complex_Main
    "HOL-Library.Product_Lexorder"
    "HOL-Library.List_Lexorder"
    "HOL-Library.Char_ord"
begin

section \<open>Shared conventions\<close>

text \<open>
  The development embeds two modules of the repository:
  \<^item> \<^verbatim>\<open>backend/services/claims-engine/src/pricing/pricing_engine.py\<close> with the rows of
    \<^verbatim>\<open>pricing/models.py\<close> it reads and writes and the endpoint of \<^verbatim>\<open>pricing/api.py\<close>
    that drives a T&C update;
  \<^item> \<^verbatim>\<open>init_desg/claims_validation_engine_v1.py\<close>.

  Conventions of the embedding.
  \<^item> A Python \<^verbatim>\<open>Decimal\<close> is its exact rational value. The context precision of 28
    significant digits, the special values (\<^verbatim>\<open>NaN\<close>, \<^verbatim>\<open>Infinity\<close>) and the rounding of
    a \<^verbatim>\<open>NUMERIC(p, s)\<close> column on write are outside the model; so are the
    \<^verbatim>\<open>float(...)\<close> conversions that \<^verbatim>\<open>calculate_premium\<close> applies when it fills its
    result dictionary: the result record holds the decimals that are converted.
  \<^item> An f-string is the list of its parts (literal text and interpolated values), so
    that no rendering of a decimal or a date has to be chosen.
  \<^item> A UUID is its canonical text.
  \<^item> An exception is a value \<open>Inl e\<close> of a result \<open>error + 'a\<close>.
  \<^item> The SQLAlchemy session is a record of tables (lists of rows, in storage order).
    A query \<^verbatim>\<open>.filter(p).first()\<close> is \<^const>\<open>find\<close>, \<^verbatim>\<open>.count()\<close> is the length of
    a \<^const>\<open>filter\<close>, a relationship (\<^verbatim>\<open>config.members\<close>) is the filter on its foreign
    key. A mutated row is written back in place. Primary keys that the engine never
    reads (\<^verbatim>\<open>selection_id\<close>, \<^verbatim>\<open>band_id\<close>, ...) and timestamps are left out.
\<close>

type_synonym decimal = rat
type_synonym uuid = string

datatype pyval =
    PStr string
  | PInt int
  | PDec decimal
  | PBool bool
  | PStrs "string list"
  | PDate int
  | PNone

type_synonym fstring = "pyval list"

datatype error =
    ValueError fstring
  | AttributeError string
  | DivisionByZero

text \<open>
  \<^verbatim>\<open>a / b\<close> on decimals with a divisor that is not a literal: the default context
  traps a division by zero. (A division by a literal such as \<^verbatim>\<open>/ 12\<close> is written
  with the plain \<open>/\<close>.)
\<close>

definition dec_div :: "decimal \<Rightarrow> decimal \<Rightarrow> error + decimal" where
  "dec_div a b = (if b = 0 then Inl DivisionByZero else Inr (a / b))"

text \<open>
  \<^verbatim>\<open>x.quantize(Decimal('0.01'), rounding=ROUND_HALF_UP)\<close>: the nearest multiple of
  \<open>1/100\<close>, a tie going away from zero.
\<close>

definition quantize_half_up :: "decimal \<Rightarrow> decimal" where
  "quantize_half_up x =
     (if 0 \<le> x then of_int \<lfloor>x * 100 + 1 / 2\<rfloor> / 100
      else - (of_int \<lfloor>- x * 100 + 1 / 2\<rfloor> / 100))"

text \<open>\<^verbatim>\<open>x or Decimal('0')\<close> on a nullable decimal column.\<close>

definition or_zero :: "decimal option \<Rightarrow> decimal" where
  "or_zero x = (case x of None \<Rightarrow> 0 | Some v \<Rightarrow> (if v = 0 then 0 else v))"

section \<open>Pricing: the rows of \<^verbatim>\<open>models.py\<close>\<close>

text \<open>\<^verbatim>\<open>datetime.date\<close>, as the pricing module reads it (year, month, day).\<close>

record ymd =
  year :: int
  month :: int
  day :: int

datatype PolicyStatus = DRAFT | QUOTED | APPROVED | ACTIVE | EXPIRED | CANCELLED

text \<open>
  \<^verbatim>\<open>models.BenefitCategory\<close>, a string enum. The validation engine has an enum of the
  same name with other members; the pricing one carries the prefix \<open>CAT_\<close> here.
\<close>

datatype PricingCategory =
  CAT_INPATIENT | CAT_OUTPATIENT | CAT_DENTAL | CAT_MATERNITY | CAT_OPTICAL | CAT_ASO

fun category_value :: "PricingCategory \<Rightarrow> string" where
  "category_value CAT_INPATIENT = ''INPATIENT''"
| "category_value CAT_OUTPATIENT = ''OUTPATIENT''"
| "category_value CAT_DENTAL = ''DENTAL''"
| "category_value CAT_MATERNITY = ''MATERNITY''"
| "category_value CAT_OPTICAL = ''OPTICAL''"
| "category_value CAT_ASO = ''ASO''"

record ProductTemplate =
  template_id :: uuid
  product_category :: string
  base_premium_adult_male :: "decimal option"
  base_premium_adult_female :: "decimal option"
  base_premium_child :: "decimal option"

record AgeBandMultiplier =
  abm_template_id :: "uuid option"
  age_from :: int
  age_to :: int
  abm_gender :: string
  multiplier :: decimal

record TCFactorConfig =
  factor_id :: uuid
  factor_code :: string
  factor_name :: string

record TCFactorOption =
  option_id :: uuid
  opt_factor_id :: "uuid option"
  option_value :: string
  option_label :: string
  opt_multiplier :: decimal
  min_participants :: "int option"
  max_participants :: "int option"

record PolicyConfig =
  config_id :: uuid
  quote_number :: string
  company_name :: string
  participant_count :: int
  policy_status :: PolicyStatus
  total_base_premium :: "decimal option"
  total_adjusted_premium :: "decimal option"
  total_factor_multiplier :: "decimal option"

record BenefitSelection =
  bs_config_id :: uuid
  benefit_category :: string
  bs_template_id :: "uuid option"
  is_selected :: bool
  category_factor :: decimal

record PolicyTCSelection =
  tcs_config_id :: uuid
  tcs_factor_id :: "uuid option"
  tcs_option_id :: "uuid option"
  applied_multiplier :: decimal

record PolicyMember =
  pm_member_id :: uuid
  pm_config_id :: uuid
  member_number :: int
  full_name :: string
  date_of_birth :: ymd
  gender :: string
  member_status :: string
  base_premium :: "decimal option"

record PremiumCalculationLog =
  log_config_id :: uuid
  log_participant_count :: int
  selected_benefits :: "(string \<times> bool) list"
  selected_factors :: "(string \<times> string) list"
  log_base_premium_total :: decimal
  log_total_multiplier :: decimal
  log_monthly_premium :: decimal
  log_annual_premium :: decimal
  log_admin_fee :: decimal
  log_tpa_fee :: decimal
  log_total_premium :: decimal

record ApprovalWorkflow =
  wf_config_id :: uuid
  step_name :: string
  step_order :: int
  approval_status :: string
  min_premium_threshold :: decimal

record session =
  configs :: "PolicyConfig list"
  templates :: "ProductTemplate list"
  age_bands :: "AgeBandMultiplier list"
  tc_factors :: "TCFactorConfig list"
  tc_options :: "TCFactorOption list"
  benefit_selections :: "BenefitSelection list"
  tc_selections :: "PolicyTCSelection list"
  members :: "PolicyMember list"
  calculations :: "PremiumCalculationLog list"
  approvals :: "ApprovalWorkflow list"

subsection \<open>Queries and relationships\<close>

text \<open>Writing a mutated row back: the first row that satisfies \<open>p\<close> becomes \<open>f row\<close>.\<close>

fun update_first :: "('a \<Rightarrow> bool) \<Rightarrow> ('a \<Rightarrow> 'a) \<Rightarrow> 'a list \<Rightarrow> 'a list" where
  "update_first p f [] = []"
| "update_first p f (x # xs) = (if p x then f x # xs else x # update_first p f xs)"

text \<open>\<^verbatim>\<open>session.query(PolicyConfig).get(config_id)\<close>\<close>

definition get_config :: "session \<Rightarrow> uuid \<Rightarrow> PolicyConfig option" where
  "get_config s cid = find (\<lambda>c. config_id c = cid) (configs s)"

text \<open>\<^verbatim>\<open>config.benefit_selections\<close>, \<^verbatim>\<open>config.tc_selections\<close>, \<^verbatim>\<open>config.members\<close>\<close>

definition config_benefit_selections :: "session \<Rightarrow> PolicyConfig \<Rightarrow> BenefitSelection list" where
  "config_benefit_selections s config =
     filter (\<lambda>b. bs_config_id b = config_id config) (benefit_selections s)"

definition config_tc_selections :: "session \<Rightarrow> PolicyConfig \<Rightarrow> PolicyTCSelection list" where
  "config_tc_selections s config =
     filter (\<lambda>t. tcs_config_id t = config_id config) (tc_selections s)"

definition config_members :: "session \<Rightarrow> PolicyConfig \<Rightarrow> PolicyMember list" where
  "config_members s config =
     filter (\<lambda>m. pm_config_id m = config_id config) (members s)"

text \<open>\<^verbatim>\<open>selection.template\<close>, \<^verbatim>\<open>tc_selection.factor\<close>, \<^verbatim>\<open>tc_selection.option\<close>\<close>

definition selection_template :: "session \<Rightarrow> BenefitSelection \<Rightarrow> ProductTemplate option" where
  "selection_template s b =
     (case bs_template_id b of
        None \<Rightarrow> None
      | Some t \<Rightarrow> find (\<lambda>T. template_id T = t) (templates s))"

definition tc_selection_factor :: "session \<Rightarrow> PolicyTCSelection \<Rightarrow> TCFactorConfig option" where
  "tc_selection_factor s t =
     (case tcs_factor_id t of
        None \<Rightarrow> None
      | Some f \<Rightarrow> find (\<lambda>F. factor_id F = f) (tc_factors s))"

definition tc_selection_option :: "session \<Rightarrow> PolicyTCSelection \<Rightarrow> TCFactorOption option" where
  "tc_selection_option s t =
     (case tcs_option_id t of
        None \<Rightarrow> None
      | Some p \<Rightarrow> find (\<lambda>P. option_id P = p) (tc_options s))"

text \<open>
  \<^verbatim>\<open>PolicyMember.age\<close>: the hybrid property, with \<^verbatim>\<open>date.today()\<close> as the parameter
  \<open>today\<close>. The comparison of the (month, day) pairs is Python's tuple order.
\<close>

definition age :: "ymd \<Rightarrow> PolicyMember \<Rightarrow> int" where
  "age today m =
     (let dob = date_of_birth m in
      year today - year dob
        - (if month today < month dob \<or> (month today = month dob \<and> day today < day dob)
           then 1 else 0))"

section \<open>Pricing: \<^verbatim>\<open>PricingEngine\<close>\<close>

subsection \<open>Premium calculation\<close>

definition get_age_band_multiplier :: "session \<Rightarrow> uuid option \<Rightarrow> int \<Rightarrow> string \<Rightarrow> decimal" where
  "get_age_band_multiplier s tid a g =
     (case find (\<lambda>b. abm_template_id b = tid \<and> age_from b \<le> a \<and> age_to b \<ge> a
                      \<and> abm_gender b = (if a \<ge> 18 then g else ''CHILD''))
                (age_bands s) of
        None \<Rightarrow> 1
      | Some b \<Rightarrow> multiplier b)"

text \<open>
  One turn of the loop of \<^verbatim>\<open>_calculate_member_premium\<close> over
  \<^verbatim>\<open>config.benefit_selections\<close>; \<^verbatim>\<open>continue\<close> leaves the running premium as it is.
\<close>

definition member_premium_step ::
  "ymd \<Rightarrow> session \<Rightarrow> PolicyMember \<Rightarrow> decimal \<Rightarrow> BenefitSelection \<Rightarrow> decimal" where
  "member_premium_step today s member premium selection =
     (case selection_template s selection of
        None \<Rightarrow> premium
      | Some template \<Rightarrow>
          if \<not> is_selected selection then premium
          else
            let base_rate =
                  (if age today member < 18 then or_zero (base_premium_child template)
                   else if gender member = ''MALE'' then or_zero (base_premium_adult_male template)
                   else or_zero (base_premium_adult_female template));
                age_multiplier =
                  get_age_band_multiplier s (bs_template_id selection) (age today member)
                    (gender member)
            in premium + base_rate * age_multiplier)"

definition calculate_member_premium ::
  "ymd \<Rightarrow> session \<Rightarrow> PolicyMember \<Rightarrow> PolicyConfig \<Rightarrow> decimal" where
  "calculate_member_premium today s member config =
     foldl (member_premium_step today s member) 0 (config_benefit_selections s config)"

record factor_breakdown =
  benefit_factors :: "(string \<times> decimal) list"
  tc_factors_used :: "(string \<times> string \<times> string \<times> decimal) list"
  fb_total_multiplier :: decimal

definition calculate_factor_breakdown :: "session \<Rightarrow> PolicyConfig \<Rightarrow> factor_breakdown" where
  "calculate_factor_breakdown s config =
     (let factors = \<lparr>benefit_factors = [], tc_factors_used = [], fb_total_multiplier = 1\<rparr>;
          factors1 =
            foldl (\<lambda>fs selection.
                     if is_selected selection
                     then fs\<lparr>benefit_factors :=
                               benefit_factors fs @ [(benefit_category selection, category_factor selection)],
                             fb_total_multiplier := fb_total_multiplier fs * category_factor selection\<rparr>
                     else fs)
              factors (config_benefit_selections s config)
      in foldl (\<lambda>fs tc_selection.
                  case (tc_selection_factor s tc_selection, tc_selection_option s tc_selection) of
                    (Some factor, Some opt) \<Rightarrow>
                      fs\<lparr>tc_factors_used :=
                            tc_factors_used fs @
                              [(factor_code factor, factor_name factor, option_label opt,
                                applied_multiplier tc_selection)],
                          fb_total_multiplier := fb_total_multiplier fs * applied_multiplier tc_selection\<rparr>
                  | _ \<Rightarrow> fs)
           factors1 (config_tc_selections s config))"

definition calculate_admin_fee :: "PolicyConfig \<Rightarrow> decimal \<Rightarrow> decimal" where
  "calculate_admin_fee config premium =
     (let base_fee = 100000;
          percentage_fee = premium * (5 / 100)
      in max base_fee percentage_fee)"

definition calculate_tpa_fee :: "PolicyConfig \<Rightarrow> decimal \<Rightarrow> decimal" where
  "calculate_tpa_fee config premium =
     (let per_member_fee = 10000 * of_int (participant_count config);
          min_fee = 100000
      in max per_member_fee min_fee)"

record member_detail =
  md_member_id :: uuid
  md_name :: string
  md_age :: int
  md_gender :: string
  md_base_premium :: decimal

record premium_result =
  r_config_id :: uuid
  r_company_name :: string
  r_participant_count :: int
  r_base_premium :: decimal
  r_total_multiplier :: decimal
  r_adjusted_premium :: decimal
  r_admin_fee :: decimal
  r_tpa_fee :: decimal
  r_total_premium :: decimal
  r_monthly_premium :: decimal
  r_per_member_average :: decimal
  r_factor_breakdown :: factor_breakdown
  r_member_details :: "member_detail list"

definition save_calculation_log :: "session \<Rightarrow> PolicyConfig \<Rightarrow> premium_result \<Rightarrow> session" where
  "save_calculation_log s config result =
     s\<lparr>calculations := calculations s @
         [\<lparr>log_config_id = config_id config,
           log_participant_count = participant_count config,
           selected_benefits =
             map (\<lambda>b. (benefit_category b, is_selected b)) (config_benefit_selections s config),
           selected_factors =
             concat (map (\<lambda>tc. case (tc_selection_factor s tc, tc_selection_option s tc) of
                                   (Some factor, Some opt) \<Rightarrow> [(factor_code factor, option_value opt)]
                                 | _ \<Rightarrow> [])
                         (config_tc_selections s config)),
           log_base_premium_total = r_base_premium result,
           log_total_multiplier = r_total_multiplier result,
           log_monthly_premium = r_monthly_premium result,
           log_annual_premium = r_total_premium result,
           log_admin_fee = r_admin_fee result,
           log_tpa_fee = r_tpa_fee result,
           log_total_premium = r_total_premium result\<rparr>]\<rparr>"

text \<open>
  \<^verbatim>\<open>calculate_premium\<close>. The loop over \<^verbatim>\<open>config.members\<close> skips the members that are
  not ACTIVE, stores each premium on its member row and adds it up; the totals are
  stored on the configuration; the log row is added when \<^verbatim>\<open>save_calculation\<close> holds.
\<close>

definition store_member_premiums :: "ymd \<Rightarrow> session \<Rightarrow> PolicyConfig \<Rightarrow> session" where
  "store_member_premiums today s config =
     s\<lparr>members :=
         map (\<lambda>m. if pm_config_id m = config_id config \<and> member_status m = ''ACTIVE''
                   then m\<lparr>base_premium := Some (calculate_member_premium today s m config)\<rparr>
                   else m)
             (members s)\<rparr>"

definition calculate_premium ::
  "ymd \<Rightarrow> session \<Rightarrow> uuid \<Rightarrow> bool \<Rightarrow> error + (session \<times> premium_result)" where
  "calculate_premium today s cid save_calculation =
     (case get_config s cid of
        None \<Rightarrow> Inl (ValueError [PStr ''Configuration '', PStr cid, PStr '' not found''])
      | Some config \<Rightarrow>
          let active = filter (\<lambda>m. member_status m = ''ACTIVE'') (config_members s config);
              base_premium_total =
                foldl (\<lambda>total m. total + calculate_member_premium today s m config) 0 active;
              details =
                map (\<lambda>m. \<lparr>md_member_id = pm_member_id m, md_name = full_name m,
                           md_age = age today m, md_gender = gender m,
                           md_base_premium = calculate_member_premium today s m config\<rparr>)
                    active;
              breakdown = calculate_factor_breakdown s config;
              total_multiplier = fb_total_multiplier breakdown;
              adjusted_premium = base_premium_total * total_multiplier;
              admin_fee = calculate_admin_fee config adjusted_premium;
              tpa_fee = calculate_tpa_fee config adjusted_premium;
              total_premium = quantize_half_up (adjusted_premium + admin_fee + tpa_fee);
              monthly = total_premium / 12
          in (case (if participant_count config > 0
                        then dec_div total_premium (of_int (participant_count config))
                        else Inr 0) of
                    Inl e \<Rightarrow> Inl e
                  | Inr average \<Rightarrow>
                      let result =
                            \<lparr>r_config_id = cid,
                             r_company_name = company_name config,
                             r_participant_count = participant_count config,
                             r_base_premium = base_premium_total,
                             r_total_multiplier = total_multiplier,
                             r_adjusted_premium = adjusted_premium,
                             r_admin_fee = admin_fee,
                             r_tpa_fee = tpa_fee,
                             r_total_premium = total_premium,
                             r_monthly_premium = monthly,
                             r_per_member_average = average,
                             r_factor_breakdown = breakdown,
                             r_member_details = details\<rparr>;
                          s1 = store_member_premiums today s config;
                          s2 = s1\<lparr>configs :=
                                    update_first (\<lambda>c. config_id c = cid)
                                      (\<lambda>c. c\<lparr>total_base_premium := Some base_premium_total,
                                              total_factor_multiplier := Some total_multiplier,
                                              total_adjusted_premium := Some adjusted_premium\<rparr>)
                                      (configs s1)\<rparr>;
                          s3 = (if save_calculation then save_calculation_log s2 config result else s2)
                      in Inr (s3, result)))"

subsection \<open>Benefit categories\<close>

text \<open>
  \<^verbatim>\<open>_calculate_category_factor\<close>. The member query filters on the configuration, the
  gender and the age only; it is read as the filter it denotes on the member rows
  (the age being the property \<^const>\<open>age\<close>). \<^verbatim>\<open>female_count > participant_count * 0.4\<close>
  compares an integer with a binary float; for the counts a configuration can hold it
  decides as the exact comparison with \<open>2/5\<close> does, which is what stands here.
  A missing configuration makes \<^verbatim>\<open>config.participant_count\<close> raise.
\<close>

definition calculate_category_factor ::
  "ymd \<Rightarrow> session \<Rightarrow> uuid \<Rightarrow> PricingCategory \<Rightarrow> error + decimal" where
  "calculate_category_factor today s cid category =
     (case get_config s cid of
        None \<Rightarrow> Inl (AttributeError ''participant_count'')
      | Some config \<Rightarrow>
          let base_factor = 1.000;
              base_factor1 =
                (if participant_count config < 15 then base_factor * 1.500
                 else if participant_count config < 25 then base_factor * 1.250
                 else if participant_count config < 50 then base_factor * 1.100
                 else base_factor)
          in if category = CAT_MATERNITY
             then
               let female_count =
                     int (length (filter (\<lambda>m. pm_config_id m = cid \<and> gender m = ''FEMALE''
                                               \<and> age today m \<ge> 18 \<and> age today m \<le> 45)
                                         (members s)))
               in if of_int female_count > (of_int (participant_count config) :: rat) * (2 / 5)
                  then Inr (base_factor1 * 1.150)
                  else Inr base_factor1
             else Inr base_factor1)"

definition toggle_benefit_category ::
  "ymd \<Rightarrow> session \<Rightarrow> uuid \<Rightarrow> PricingCategory \<Rightarrow> bool
     \<Rightarrow> error + (session \<times> BenefitSelection option)" where
  "toggle_benefit_category today s cid category selected =
     (let row = (\<lambda>b. bs_config_id b = cid \<and> benefit_category b = category_value category) in
      case find row (benefit_selections s) of
        None \<Rightarrow> Inr (s, None)
      | Some selection \<Rightarrow>
          if selected
          then (case calculate_category_factor today s cid category of
                  Inl e \<Rightarrow> Inl e
                | Inr f \<Rightarrow>
                    let selection1 = selection\<lparr>is_selected := selected, category_factor := f\<rparr>
                    in Inr (s\<lparr>benefit_selections :=
                                 update_first row (\<lambda>b. selection1) (benefit_selections s)\<rparr>,
                            Some selection1))
          else
            let selection1 = selection\<lparr>is_selected := selected, category_factor := 1.000\<rparr>
            in Inr (s\<lparr>benefit_selections :=
                         update_first row (\<lambda>b. selection1) (benefit_selections s)\<rparr>,
                    Some selection1))"

subsection \<open>T&C factors\<close>







subsection \<open>Approval workflow\<close>

definition validate_configuration :: "session \<Rightarrow> PolicyConfig \<Rightarrow> error option" where
  "validate_configuration s config =
     (if participant_count config < 5
      then Some (ValueError [PStr ''Minimum 5 participants required''])
      else if \<not> list_ex is_selected (config_benefit_selections s config)
      then Some (ValueError [PStr ''At least one benefit must be selected''])
      else if length (filter (\<lambda>m. pm_config_id m = config_id config \<and> member_status m = ''ACTIVE'')
                             (members s)) = 0
      then Some (ValueError [PStr ''No members enrolled''])
      else None)"

definition create_approval_workflow :: "session \<Rightarrow> PolicyConfig \<Rightarrow> session" where
  "create_approval_workflow s config =
     foldl (\<lambda>s1 (name, position, threshold).
              case total_adjusted_premium config of
                None \<Rightarrow> s1
              | Some adjusted \<Rightarrow>
                  if adjusted \<noteq> 0 \<and> adjusted \<ge> threshold
                  then s1\<lparr>approvals := approvals s1 @
                            [\<lparr>wf_config_id = config_id config, step_name = name,
                              step_order = position, approval_status = ''PENDING'',
                              min_premium_threshold = threshold\<rparr>]\<rparr>
                  else s1)
           s
           [(''UNDERWRITING'', 1, 1000000), (''ACTUARIAL'', 2, 5000000),
            (''MANAGEMENT'', 3, 10000000)]"

text \<open>
  \<^verbatim>\<open>submit_for_approval\<close>. The Python object \<^verbatim>\<open>config\<close> is the row of the session, so
  after \<^verbatim>\<open>calculate_premium\<close> it carries the stored totals; the model reads the row
  again.
\<close>

definition submit_for_approval ::
  "ymd \<Rightarrow> session \<Rightarrow> uuid \<Rightarrow> string \<Rightarrow> error + (session \<times> PolicyConfig)" where
  "submit_for_approval today s cid submitted_by =
     (case get_config s cid of
        None \<Rightarrow> Inl (AttributeError ''status'')
      | Some config \<Rightarrow>
          if policy_status config \<noteq> DRAFT
          then Inl (ValueError [PStr ''Only draft configurations can be submitted for approval''])
          else (case validate_configuration s config of
                  Some e \<Rightarrow> Inl e
                | None \<Rightarrow>
                    (case calculate_premium today s cid True of
                       Inl e \<Rightarrow> Inl e
                     | Inr (s1, result) \<Rightarrow>
                         let s2 = s1\<lparr>configs :=
                                      update_first (\<lambda>c. config_id c = cid)
                                        (\<lambda>c. c\<lparr>policy_status := QUOTED\<rparr>) (configs s1)\<rparr>
                         in (case get_config s2 cid of
                               None \<Rightarrow> Inl (AttributeError ''status'')
                             | Some config2 \<Rightarrow>
                                 Inr (create_approval_workflow s2 config2, config2)))))"

subsection \<open>A bound that is set, not zero, and violated\<close>



section \<open>Claims validation: \<^verbatim>\<open>claims_validation_engine_v1.py\<close>\<close>

text \<open>
  A \<^verbatim>\<open>datetime.date\<close> of this module is its day number (the module subtracts dates,
  adds day counts and compares). \<^verbatim>\<open>str(...)\<close> of a decimal or a date in a details
  dictionary is kept as the value.
\<close>

type_synonym date = int

datatype ValidationStatus = PASSED | FAILED | WARNING | PENDING

datatype BenefitCategory =
    INPATIENT | OUTPATIENT | DENTAL | OPTICAL | MATERNITY | EMERGENCY | PREVENTIVE
  | MENTAL_HEALTH | REHABILITATION

datatype CoverageType =
    NOT_COVERED | COVERED_STANDARD | COVERED_PER_CASE | COVERED_PER_YEAR | COVERED_PER_VISIT
  | COVERED_PER_DAY | COVERED_IN_SURGERY | COVERED_IN_HOSPITAL | COVERED_SEPARATE
  | COVERED_MEDICAL_IND | COVERED_TC

datatype ClaimChannel = CASHLESS | REIMBURSEMENT

record ValidationResult =
  rule_code :: string
  rule_name :: string
  status :: ValidationStatus
  message :: fstring
  details :: "(string \<times> pyval) list"
  can_override :: bool
  required_authority_level :: int

record BenefitConfiguration =
  benefit_code :: string
  benefit_name :: string
  category :: BenefitCategory
  coverage_type :: CoverageType
  claim_settlement_pct :: int
  coinsurance_pct :: int
  limit_value :: "decimal option"
  max_days_per_year :: "int option"
  max_visits_per_year :: "int option"
  max_cases_per_year :: "int option"
  requires_preauth :: bool
  min_age_years :: "int option"
  max_age_years :: "int option"
  requires_medical_indication :: bool
  waiting_period_days :: int
  pre_hospitalization_days :: "int option"
  post_hospitalization_days :: "int option"
  exclusions :: "string list"
  prerequisites :: "string list"

text \<open>An entry of \<^verbatim>\<open>previous_claims\<close>: a dictionary read at three keys.\<close>

record previous_claim =
  prev_hash :: "string option"
  prev_service_date :: "date option"
  prev_claim_id :: "string option"

record ClaimContext =
  claim_id :: string
  member_id :: string
  member_age_years :: int
  plan_id :: string
  claim_benefit_code :: string
  service_date :: date
  admission_date :: "date option"
  discharge_date :: "date option"
  provider_id :: string
  diagnosis_codes :: "string list"
  procedure_codes :: "string list"
  claimed_amount :: decimal
  channel :: ClaimChannel
  has_preauth :: bool
  preauth_number :: "string option"
  is_emergency :: bool
  member_since_date :: "date option"
  previous_claims :: "previous_claim list"
  accumulator_balances :: "string \<rightharpoonup> decimal"

text \<open>Python's truth value of an \<^verbatim>\<open>Optional[int]\<close> and of an \<^verbatim>\<open>Optional[Decimal]\<close>.\<close>

definition truthy :: "int option \<Rightarrow> bool" where
  "truthy x = (case x of None \<Rightarrow> False | Some n \<Rightarrow> n \<noteq> 0)"

definition truthy_decimal :: "decimal option \<Rightarrow> bool" where
  "truthy_decimal x = (case x of None \<Rightarrow> False | Some v \<Rightarrow> v \<noteq> 0)"

subsection \<open>Validation functions\<close>

text \<open>
  A validation function returns a result or \<^verbatim>\<open>None\<close>; it leaves \<^verbatim>\<open>rule_code\<close> and
  \<^verbatim>\<open>rule_name\<close> empty.
\<close>

definition validate_age_eligibility ::
  "ClaimContext \<Rightarrow> BenefitConfiguration \<Rightarrow> ValidationResult option" where
  "validate_age_eligibility ctx benefit =
     (if truthy (min_age_years benefit) \<and> member_age_years ctx < the (min_age_years benefit)
      then Some \<lparr>rule_code = [], rule_name = [], status = FAILED,
                 message = [PStr ''Member age '', PInt (member_age_years ctx),
                            PStr '' is below minimum age '', PInt (the (min_age_years benefit))],
                 details = [(''member_age'', PInt (member_age_years ctx)),
                            (''min_age'', PInt (the (min_age_years benefit)))],
                 can_override = False, required_authority_level = 0\<rparr>
      else if truthy (max_age_years benefit) \<and> member_age_years ctx > the (max_age_years benefit)
      then Some \<lparr>rule_code = [], rule_name = [], status = FAILED,
                 message = [PStr ''Member age '', PInt (member_age_years ctx),
                            PStr '' exceeds maximum age '', PInt (the (max_age_years benefit))],
                 details = [(''member_age'', PInt (member_age_years ctx)),
                            (''max_age'', PInt (the (max_age_years benefit)))],
                 can_override = False, required_authority_level = 0\<rparr>
      else None)"

definition validate_waiting_period ::
  "ClaimContext \<Rightarrow> BenefitConfiguration \<Rightarrow> ValidationResult option" where
  "validate_waiting_period ctx benefit =
     (if waiting_period_days benefit > 0 \<and> member_since_date ctx \<noteq> None
      then
        let days_as_member = service_date ctx - the (member_since_date ctx) in
        if days_as_member < waiting_period_days benefit
        then Some \<lparr>rule_code = [], rule_name = [], status = FAILED,
                   message = [PStr ''Waiting period not met. Required: '',
                              PInt (waiting_period_days benefit), PStr '' days, '',
                              PStr ''Actual: '', PInt days_as_member, PStr '' days''],
                   details = [(''waiting_period_days'', PInt (waiting_period_days benefit)),
                              (''days_as_member'', PInt days_as_member)],
                   can_override = False, required_authority_level = 0\<rparr>
        else None
      else None)"

definition validate_annual_limit ::
  "ClaimContext \<Rightarrow> BenefitConfiguration \<Rightarrow> ValidationResult option" where
  "validate_annual_limit ctx benefit =
     (if truthy_decimal (limit_value benefit)
      then
        let used_amount =
              (case accumulator_balances ctx (benefit_code benefit @ ''_annual'') of
                 None \<Rightarrow> 0
               | Some v \<Rightarrow> v);
            remaining = the (limit_value benefit) - used_amount
        in if claimed_amount ctx > remaining
           then Some \<lparr>rule_code = [], rule_name = [],
                      status = (if remaining \<le> 0 then FAILED else WARNING),
                      message = [PStr ''Annual limit '',
                                 PStr (if remaining \<le> 0 then ''exceeded'' else ''will be exceeded''),
                                 PStr ''. '', PStr ''Limit: '', PDec (the (limit_value benefit)),
                                 PStr '', Used: '', PDec used_amount, PStr '', '',
                                 PStr ''Claimed: '', PDec (claimed_amount ctx)],
                      details = [(''annual_limit'', PDec (the (limit_value benefit))),
                                 (''used_amount'', PDec used_amount),
                                 (''remaining'', PDec remaining),
                                 (''claimed_amount'', PDec (claimed_amount ctx))],
                      can_override = True, required_authority_level = 2\<rparr>
           else None
      else None)"

definition validate_preauthorization ::
  "ClaimContext \<Rightarrow> BenefitConfiguration \<Rightarrow> ValidationResult option" where
  "validate_preauthorization ctx benefit =
     (if requires_preauth benefit \<and> \<not> is_emergency ctx
      then
        if \<not> has_preauth ctx
        then Some \<lparr>rule_code = [], rule_name = [], status = FAILED,
                   message = [PStr ''Pre-authorization required but not provided''],
                   details = [(''requires_preauth'', PBool True), (''has_preauth'', PBool False)],
                   can_override = True, required_authority_level = 3\<rparr>
        else None
      else None)"

definition validate_medical_indication ::
  "ClaimContext \<Rightarrow> BenefitConfiguration \<Rightarrow> ValidationResult option" where
  "validate_medical_indication ctx benefit =
     (if requires_medical_indication benefit
      then
        if diagnosis_codes ctx = []
        then Some \<lparr>rule_code = [], rule_name = [], status = FAILED,
                   message = [PStr ''Medical indication required but no diagnosis provided''],
                   details = [(''requires_medical_indication'', PBool True)],
                   can_override = False, required_authority_level = 0\<rparr>
        else if take 4 (benefit_code benefit) = ''CIRC''
        then
          let valid_diagnoses = [''N47.0'', ''N47.1'', ''Z41.2''] in
          if \<not> list_ex (\<lambda>diag. diag \<in> set valid_diagnoses) (diagnosis_codes ctx)
          then Some \<lparr>rule_code = [], rule_name = [], status = FAILED,
                     message = [PStr ''Medical indication not met for circumcision''],
                     details = [(''diagnosis_codes'', PStrs (diagnosis_codes ctx)),
                                (''required_diagnoses'', PStrs valid_diagnoses)],
                     can_override = False, required_authority_level = 0\<rparr>
          else None
        else None
      else None)"

definition validate_exclusions ::
  "ClaimContext \<Rightarrow> BenefitConfiguration \<Rightarrow> ValidationResult option" where
  "validate_exclusions ctx benefit =
     (case find (\<lambda>diagnosis. diagnosis \<in> set (exclusions benefit)) (diagnosis_codes ctx) of
        None \<Rightarrow> None
      | Some diagnosis \<Rightarrow>
          Some \<lparr>rule_code = [], rule_name = [], status = FAILED,
                message = [PStr ''Diagnosis '', PStr diagnosis, PStr '' is excluded from coverage''],
                details = [(''excluded_diagnosis'', PStr diagnosis)],
                can_override = False, required_authority_level = 0\<rparr>)"

definition validate_channel ::
  "ClaimContext \<Rightarrow> BenefitConfiguration \<Rightarrow> ValidationResult option" where
  "validate_channel ctx benefit = None"

text \<open>
  \<^verbatim>\<open>_generate_claim_hash\<close>: the SHA-256 digest of the text made of the member, the benefit
  code, the service date and the claimed amount. The digest of the four values is the
  parameter \<open>digest\<close>.
\<close>

type_synonym digest = "string \<times> string \<times> date \<times> decimal \<Rightarrow> string"

definition generate_claim_hash :: "digest \<Rightarrow> ClaimContext \<Rightarrow> string" where
  "generate_claim_hash digest ctx =
     digest (member_id ctx, claim_benefit_code ctx, service_date ctx, claimed_amount ctx)"

definition validate_duplicate ::
  "digest \<Rightarrow> ClaimContext \<Rightarrow> BenefitConfiguration \<Rightarrow> ValidationResult option" where
  "validate_duplicate digest ctx benefit =
     (let claim_hash = generate_claim_hash digest ctx;
          days_diff = (\<lambda>prev_claim. service_date ctx
                         - (case prev_service_date prev_claim of
                              None \<Rightarrow> service_date ctx
                            | Some d \<Rightarrow> d))
      in case find (\<lambda>prev_claim. prev_hash prev_claim = Some claim_hash
                                   \<and> \<bar>days_diff prev_claim\<bar> < 30)
                   (previous_claims ctx) of
           None \<Rightarrow> None
         | Some prev_claim \<Rightarrow>
             Some \<lparr>rule_code = [], rule_name = [], status = WARNING,
                   message = [PStr ''Potential duplicate claim detected. Previous claim: '',
                              (case prev_claim_id prev_claim of
                                 None \<Rightarrow> PNone
                               | Some i \<Rightarrow> PStr i)],
                   details = [(''previous_claim_id'',
                                (case prev_claim_id prev_claim of
                                   None \<Rightarrow> PNone
                                 | Some i \<Rightarrow> PStr i)),
                              (''days_difference'', PInt (days_diff prev_claim))],
                   can_override = True, required_authority_level = 2\<rparr>)"

text \<open>\<^verbatim>\<open>_check_prerequisite_met\<close> is a placeholder that returns \<^verbatim>\<open>True\<close>.\<close>

definition check_prerequisite_met :: "ClaimContext \<Rightarrow> string \<Rightarrow> bool" where
  "check_prerequisite_met ctx prerequisite = True"

definition validate_prerequisites ::
  "ClaimContext \<Rightarrow> BenefitConfiguration \<Rightarrow> ValidationResult option" where
  "validate_prerequisites ctx benefit =
     (case find (\<lambda>prereq. \<not> check_prerequisite_met ctx prereq) (prerequisites benefit) of
        None \<Rightarrow> None
      | Some prereq \<Rightarrow>
          Some \<lparr>rule_code = [], rule_name = [], status = FAILED,
                message = [PStr ''Prerequisite benefit '', PStr prereq, PStr '' not met''],
                details = [(''missing_prerequisite'', PStr prereq)],
                can_override = False, required_authority_level = 0\<rparr>)"

definition validate_accumulators ::
  "ClaimContext \<Rightarrow> BenefitConfiguration \<Rightarrow> ValidationResult option" where
  "validate_accumulators ctx benefit = None"

definition validate_room_upgrade ::
  "ClaimContext \<Rightarrow> BenefitConfiguration \<Rightarrow> ValidationResult option" where
  "validate_room_upgrade ctx benefit = None"

definition validate_surgery_class ::
  "ClaimContext \<Rightarrow> BenefitConfiguration \<Rightarrow> ValidationResult option" where
  "validate_surgery_class ctx benefit = None"

definition validate_pre_post_hosp ::
  "ClaimContext \<Rightarrow> BenefitConfiguration \<Rightarrow> ValidationResult option" where
  "validate_pre_post_hosp ctx benefit =
     (if truthy (pre_hospitalization_days benefit) \<and> admission_date ctx \<noteq> None
         \<and> service_date ctx < the (admission_date ctx) - the (pre_hospitalization_days benefit)
      then Some \<lparr>rule_code = [], rule_name = [], status = FAILED,
                 message = [PStr ''Service date outside pre-hospitalization window ('',
                            PInt (the (pre_hospitalization_days benefit)), PStr '' days)''],
                 details = [(''service_date'', PDate (service_date ctx)),
                            (''admission_date'', PDate (the (admission_date ctx))),
                            (''window_start'',
                               PDate (the (admission_date ctx)
                                        - the (pre_hospitalization_days benefit)))],
                 can_override = False, required_authority_level = 0\<rparr>
      else if truthy (post_hospitalization_days benefit) \<and> discharge_date ctx \<noteq> None
         \<and> service_date ctx > the (discharge_date ctx) + the (post_hospitalization_days benefit)
      then Some \<lparr>rule_code = [], rule_name = [], status = FAILED,
                 message = [PStr ''Service date outside post-hospitalization window ('',
                            PInt (the (post_hospitalization_days benefit)), PStr '' days)''],
                 details = [(''service_date'', PDate (service_date ctx)),
                            (''discharge_date'', PDate (the (discharge_date ctx))),
                            (''window_end'',
                               PDate (the (discharge_date ctx)
                                        + the (post_hospitalization_days benefit)))],
                 can_override = False, required_authority_level = 0\<rparr>
      else None)"

definition validate_icu_limits ::
  "ClaimContext \<Rightarrow> BenefitConfiguration \<Rightarrow> ValidationResult option" where
  "validate_icu_limits ctx benefit = None"

definition validate_recovery_period ::
  "ClaimContext \<Rightarrow> BenefitConfiguration \<Rightarrow> ValidationResult option" where
  "validate_recovery_period ctx benefit = None"

definition validate_visit_limits ::
  "ClaimContext \<Rightarrow> BenefitConfiguration \<Rightarrow> ValidationResult option" where
  "validate_visit_limits ctx benefit =
     (if truthy (max_visits_per_year benefit)
      then
        let used_visits =
              (case accumulator_balances ctx (benefit_code benefit @ ''_visits'') of
                 None \<Rightarrow> 0
               | Some v \<Rightarrow> v)
        in if used_visits \<ge> of_int (the (max_visits_per_year benefit))
           then Some \<lparr>rule_code = [], rule_name = [], status = FAILED,
                      message = [PStr ''Annual visit limit exceeded. Max: '',
                                 PInt (the (max_visits_per_year benefit)),
                                 PStr '', Used: '', PDec used_visits],
                      details = [(''max_visits'', PInt (the (max_visits_per_year benefit))),
                                 (''used_visits'', PDec used_visits)],
                      can_override = False, required_authority_level = 0\<rparr>
           else None
      else None)"

definition validate_package_benefits ::
  "ClaimContext \<Rightarrow> BenefitConfiguration \<Rightarrow> ValidationResult option" where
  "validate_package_benefits ctx benefit = None"

definition validate_referral ::
  "ClaimContext \<Rightarrow> BenefitConfiguration \<Rightarrow> ValidationResult option" where
  "validate_referral ctx benefit = None"

definition validate_maternity ::
  "ClaimContext \<Rightarrow> BenefitConfiguration \<Rightarrow> ValidationResult option" where
  "validate_maternity ctx benefit = None"

definition validate_dental_class ::
  "ClaimContext \<Rightarrow> BenefitConfiguration \<Rightarrow> ValidationResult option" where
  "validate_dental_class ctx benefit = None"

definition validate_optical_cycle ::
  "ClaimContext \<Rightarrow> BenefitConfiguration \<Rightarrow> ValidationResult option" where
  "validate_optical_cycle ctx benefit = None"

definition validate_mental_health ::
  "ClaimContext \<Rightarrow> BenefitConfiguration \<Rightarrow> ValidationResult option" where
  "validate_mental_health ctx benefit = None"

definition validate_aso_funds ::
  "ClaimContext \<Rightarrow> BenefitConfiguration \<Rightarrow> ValidationResult option" where
  "validate_aso_funds ctx benefit = None"

definition validate_buffer_funds ::
  "ClaimContext \<Rightarrow> BenefitConfiguration \<Rightarrow> ValidationResult option" where
  "validate_buffer_funds ctx benefit = None"

definition validate_coinsurance ::
  "ClaimContext \<Rightarrow> BenefitConfiguration \<Rightarrow> ValidationResult option" where
  "validate_coinsurance ctx benefit =
     (if coinsurance_pct benefit > 0
      then
        let member_liability = claimed_amount ctx * of_int (coinsurance_pct benefit) / 100;
            payer_liability = claimed_amount ctx - member_liability
        in Some \<lparr>rule_code = [], rule_name = [], status = PASSED,
                  message = [PStr ''Coinsurance calculated: Member pays '',
                             PInt (coinsurance_pct benefit), PStr ''%''],
                  details = [(''coinsurance_pct'', PInt (coinsurance_pct benefit)),
                             (''member_liability'', PDec member_liability),
                             (''payer_liability'', PDec payer_liability)],
                  can_override = False, required_authority_level = 0\<rparr>
      else None)"

subsection \<open>The engine\<close>

text \<open>
  A registered validator is any callable: it returns a result or \<^verbatim>\<open>None\<close> (\<open>Inr\<close>), or
  raises an exception, of which the engine reads \<^verbatim>\<open>str(e)\<close> (\<open>Inl\<close>). The registry
  \<^verbatim>\<open>validation_rules\<close> maps a rule code to the rule's name and function.
\<close>

type_synonym validator =
  "ClaimContext \<Rightarrow> BenefitConfiguration \<Rightarrow> string + ValidationResult option"

type_synonym validation_rules = "string \<rightharpoonup> string \<times> validator"

text \<open>A validation function of the module above as a validator: it raises nothing.\<close>

definition returning ::
  "(ClaimContext \<Rightarrow> BenefitConfiguration \<Rightarrow> ValidationResult option) \<Rightarrow> validator" where
  "returning f ctx benefit = Inr (f ctx benefit)"

definition register_rule ::
  "validation_rules \<Rightarrow> string \<Rightarrow> string \<Rightarrow> validator \<Rightarrow> validation_rules" where
  "register_rule rules code name validator_func = rules(code \<mapsto> (name, validator_func))"

text \<open>\<^verbatim>\<open>_initialize_rules\<close>: the registry of a new engine.\<close>

definition initialize_rules :: "digest \<Rightarrow> validation_rules" where
  "initialize_rules digest =
     foldl (\<lambda>rules (code, name, validator_func). register_rule rules code name validator_func)
       Map.empty
       [(''VAL001'', ''Age Eligibility'', returning validate_age_eligibility),
        (''VAL002'', ''Waiting Period'', returning validate_waiting_period),
        (''VAL003'', ''Annual Limit'', returning validate_annual_limit),
        (''VAL004'', ''Pre-Authorization'', returning validate_preauthorization),
        (''VAL005'', ''Medical Indication'', returning validate_medical_indication),
        (''VAL006'', ''Exclusions'', returning validate_exclusions),
        (''VAL007'', ''Channel Eligibility'', returning validate_channel),
        (''VAL008'', ''Duplicate Claim'', returning (validate_duplicate digest)),
        (''VAL009'', ''Prerequisites'', returning validate_prerequisites),
        (''VAL010'', ''Accumulator Limits'', returning validate_accumulators),
        (''VAL011'', ''Room Upgrade'', returning validate_room_upgrade),
        (''VAL012'', ''Surgery Classification'', returning validate_surgery_class),
        (''VAL013'', ''Pre/Post Hospitalization'', returning validate_pre_post_hosp),
        (''VAL014'', ''ICU Limits'', returning validate_icu_limits),
        (''VAL015'', ''Recovery Period'', returning validate_recovery_period),
        (''VAL016'', ''Visit Limits'', returning validate_visit_limits),
        (''VAL017'', ''Package Benefits'', returning validate_package_benefits),
        (''VAL018'', ''Referral Required'', returning validate_referral),
        (''VAL019'', ''Maternity Eligibility'', returning validate_maternity),
        (''VAL020'', ''Dental Classification'', returning validate_dental_class),
        (''VAL021'', ''Optical Cycle'', returning validate_optical_cycle),
        (''VAL022'', ''Mental Health Sessions'', returning validate_mental_health),
        (''VAL023'', ''ASO Fund Availability'', returning validate_aso_funds),
        (''VAL024'', ''Buffer Fund Check'', returning validate_buffer_funds),
        (''VAL025'', ''Coinsurance Calculation'', returning validate_coinsurance)]"

definition get_applicable_rules :: "BenefitCategory \<Rightarrow> ClaimContext \<Rightarrow> string list" where
  "get_applicable_rules cat ctx =
     (let rules = [''VAL001'', ''VAL002'', ''VAL003'', ''VAL004'', ''VAL005'', ''VAL006'',
                   ''VAL007'', ''VAL008'', ''VAL009'', ''VAL010'', ''VAL023'', ''VAL024'', ''VAL025'']
      in if cat = INPATIENT
         then rules @ [''VAL011'', ''VAL012'', ''VAL013'', ''VAL014'', ''VAL015'']
         else if cat = OUTPATIENT then rules @ [''VAL016'', ''VAL017'', ''VAL018'']
         else if cat = MATERNITY then rules @ [''VAL019'']
         else if cat = DENTAL then rules @ [''VAL020'']
         else if cat = OPTICAL then rules @ [''VAL021'']
         else if cat = MENTAL_HEALTH then rules @ [''VAL022'']
         else rules)"

text \<open>
  \<^verbatim>\<open>_run_validation\<close>: the result of the validator with the rule's code and name written
  into it, \<^verbatim>\<open>None\<close> when the validator returns none, and a result built from the
  exception when it raises.
\<close>

definition run_validation ::
  "string \<Rightarrow> string \<times> validator \<Rightarrow> ClaimContext \<Rightarrow> BenefitConfiguration
     \<Rightarrow> ValidationResult option" where
  "run_validation code rule ctx benefit =
     (case snd rule ctx benefit of
        Inr None \<Rightarrow> None
      | Inr (Some result) \<Rightarrow> Some (result\<lparr>rule_code := code, rule_name := fst rule\<rparr>)
      | Inl e \<Rightarrow>
          Some \<lparr>rule_code = code, rule_name = fst rule, status = FAILED,
                message = [PStr ''Validation error: '', PStr e],
                details = [], can_override = False, required_authority_level = 0\<rparr>)"

text \<open>
  \<^verbatim>\<open>results.sort(key=..., reverse=True)\<close>. The key is a triple of booleans, ordered as
  Python orders tuples (\<^verbatim>\<open>False < True\<close>, lexicographically). A sort with
  \<^verbatim>\<open>reverse=True\<close> reverses the list, sorts it stably in ascending order and reverses
  it again, so equal keys keep their order.
\<close>

definition severity_key :: "ValidationResult \<Rightarrow> bool \<times> bool \<times> bool" where
  "severity_key x = (status x = FAILED, status x = WARNING, status x = PENDING)"

definition sort_reverse :: "('a \<Rightarrow> 'k::linorder) \<Rightarrow> 'a list \<Rightarrow> 'a list" where
  "sort_reverse key xs = rev (sort_key key (rev xs))"

text \<open>
  \<^verbatim>\<open>validate_claim\<close>. The tasks are created in the order of the applicable rules, for
  the codes that are registered, and awaited in that order; a task never fails, since
  \<^verbatim>\<open>_run_validation\<close> catches the exception of its validator. The validators read the
  context and the benefit only, so running them one after the other gives the results
  of the task group. \<open>collect_results\<close> is the list \<^verbatim>\<open>results\<close> before it is sorted.
\<close>

definition collect_results ::
  "validation_rules \<Rightarrow> ClaimContext \<Rightarrow> BenefitConfiguration \<Rightarrow> ValidationResult list" where
  "collect_results rules ctx benefit =
     (let applicable_rules = get_applicable_rules (category benefit) ctx;
          tasks = List.map_filter
                    (\<lambda>code. case rules code of
                               None \<Rightarrow> None
                             | Some rule \<Rightarrow> Some (run_validation code rule ctx benefit))
                    applicable_rules
      in List.map_filter (\<lambda>result. result) tasks)"

definition validate_claim ::
  "validation_rules \<Rightarrow> ClaimContext \<Rightarrow> BenefitConfiguration \<Rightarrow> ValidationResult list" where
  "validate_claim rules ctx benefit = sort_reverse severity_key (collect_results rules ctx benefit)"

subsection \<open>Helpers\<close>

definition calculate_allowed_amount :: "ClaimContext \<Rightarrow> BenefitConfiguration \<Rightarrow> decimal" where
  "calculate_allowed_amount ctx benefit =
     (let allowed = min (claimed_amount ctx)
                        (if truthy_decimal (limit_value benefit) then the (limit_value benefit)
                         else claimed_amount ctx)
      in allowed * of_int (claim_settlement_pct benefit) / 100)"

definition get_pend_reasons :: "ValidationResult list \<Rightarrow> fstring list" where
  "get_pend_reasons validation_results =
     map message (filter (\<lambda>result. status result \<in> {FAILED, PENDING}) validation_results)"

definition can_auto_adjudicate :: "ValidationResult list \<Rightarrow> bool" where
  "can_auto_adjudicate validation_results =
     (\<not> list_ex (\<lambda>r. status r \<in> {FAILED, PENDING}) validation_results)"

subsection \<open>The amount used against the annual limit\<close>

text \<open>
  \<^verbatim>\<open>used_amount\<close> of \<^verbatim>\<open>_validate_annual_limit\<close>: the accumulator balance under the key
  \<^verbatim>\<open><benefit_code>_annual\<close>, zero when there is none.
\<close>

definition annual_used :: "ClaimContext \<Rightarrow> BenefitConfiguration \<Rightarrow> decimal" where
  "annual_used ctx benefit =
     (case accumulator_balances ctx (benefit_code benefit @ ''_annual'') of
        None \<Rightarrow> 0
      | Some v \<Rightarrow> v)"

(*VALIDATION-END*)
section \<open>Example data\<close>

text \<open>
  A configuration of five ACTIVE male employees and three TERMINATED female members,
  a configuration without participants, one inpatient template, and a T&C factor with
  four options.
\<close>

definition example_today :: ymd where
  "example_today = \<lparr>year = 2025, month = 6, day = 1\<rparr>"

definition example_member :: "string \<Rightarrow> string \<Rightarrow> string \<Rightarrow> PolicyMember" where
  "example_member ident g st =
     \<lparr>pm_member_id = ident, pm_config_id = ''cfg-1'', member_number = 1, full_name = ident,
      date_of_birth = \<lparr>year = 1990, month = 3, day = 15\<rparr>, gender = g,
      member_status = st, base_premium = None\<rparr>"

definition example_session :: session where
  "example_session =
     \<lparr>configs =
        [\<lparr>config_id = ''cfg-1'', quote_number = ''Q202506010001'', company_name = ''Acme'',
          participant_count = 5, policy_status = DRAFT, total_base_premium = None,
          total_adjusted_premium = None, total_factor_multiplier = None\<rparr>,
         \<lparr>config_id = ''cfg-0'', quote_number = ''Q202506010002'', company_name = ''Empty'',
          participant_count = 0, policy_status = DRAFT, total_base_premium = None,
          total_adjusted_premium = None, total_factor_multiplier = None\<rparr>],
      templates =
        [\<lparr>template_id = ''tpl-ip'', product_category = ''INPATIENT'',
          base_premium_adult_male = Some 1000000, base_premium_adult_female = Some 1000000,
          base_premium_child = Some 500000\<rparr>],
      age_bands = [],
      tc_factors = [\<lparr>factor_id = ''f-1'', factor_code = ''CLASS'', factor_name = ''Class structure''\<rparr>],
      tc_options =
        [\<lparr>option_id = ''o-1'', opt_factor_id = Some ''f-1'', option_value = ''A'',
          option_label = ''Single class'', opt_multiplier = 1.100,
          min_participants = None, max_participants = None\<rparr>,
         \<lparr>option_id = ''o-2'', opt_factor_id = Some ''f-1'', option_value = ''BIG'',
          option_label = ''Large group'', opt_multiplier = 0.900,
          min_participants = Some 50, max_participants = None\<rparr>,
         \<lparr>option_id = ''o-3'', opt_factor_id = Some ''f-1'', option_value = ''ZERO'',
          option_label = ''Closed'', opt_multiplier = 1.000,
          min_participants = None, max_participants = Some 0\<rparr>,
         \<lparr>option_id = ''o-4'', opt_factor_id = Some ''f-1'', option_value = ''SMALL'',
          option_label = ''Micro group'', opt_multiplier = 1.200,
          min_participants = None, max_participants = Some 3\<rparr>],
      benefit_selections =
        [\<lparr>bs_config_id = ''cfg-1'', benefit_category = ''INPATIENT'',
          bs_template_id = Some ''tpl-ip'', is_selected = True, category_factor = 1.500\<rparr>,
         \<lparr>bs_config_id = ''cfg-1'', benefit_category = ''MATERNITY'',
          bs_template_id = None, is_selected = False, category_factor = 1.000\<rparr>],
      tc_selections = [],
      members =
        [example_member ''m-1'' ''MALE'' ''ACTIVE'', example_member ''m-2'' ''MALE'' ''ACTIVE'',
         example_member ''m-3'' ''MALE'' ''ACTIVE'', example_member ''m-4'' ''MALE'' ''ACTIVE'',
         example_member ''m-5'' ''MALE'' ''ACTIVE'',
         example_member ''m-6'' ''FEMALE'' ''TERMINATED'',
         example_member ''m-7'' ''FEMALE'' ''TERMINATED'',
         example_member ''m-8'' ''FEMALE'' ''TERMINATED''],
      calculations = [],
      approvals = []\<rparr>"


text \<open>
  A claim on the inpatient benefit \<^verbatim>\<open>IP_ROOM\<close> (limit 2 000 000, coinsurance 20%,
  pre-hospitalization window of 7 days): 500 000 claimed with 1 800 000 used, the
  service 20 days before the admission.
\<close>

definition example_benefit :: BenefitConfiguration where
  "example_benefit =
     \<lparr>benefit_code = ''IP_ROOM'', benefit_name = ''Room & Board'', category = INPATIENT,
      coverage_type = COVERED_PER_DAY, claim_settlement_pct = 100, coinsurance_pct = 20,
      limit_value = Some 2000000, max_days_per_year = Some 365, max_visits_per_year = None,
      max_cases_per_year = None, requires_preauth = True, min_age_years = Some 0,
      max_age_years = Some 65, requires_medical_indication = False, waiting_period_days = 30,
      pre_hospitalization_days = Some 7, post_hospitalization_days = Some 30,
      exclusions = [], prerequisites = []\<rparr>"

definition example_claim :: ClaimContext where
  "example_claim =
     \<lparr>claim_id = ''CLM-2025-001234'', member_id = ''MEM-001'', member_age_years = 35,
      plan_id = ''PLAN-GOLD-2025'', claim_benefit_code = ''IP_ROOM'', service_date = 739478,
      admission_date = Some 739498, discharge_date = None, provider_id = ''PROV-001'',
      diagnosis_codes = [''J18.9''], procedure_codes = [], claimed_amount = 500000,
      channel = CASHLESS, has_preauth = True, preauth_number = Some ''PA-2025-001'',
      is_emergency = False, member_since_date = Some 739252, previous_claims = [],
      accumulator_balances = [''IP_ROOM_annual'' \<mapsto> 1800000]\<rparr>"

(*EXAMPLES-END*)
section \<open>Properties of the pricing engine\<close>

subsection \<open>Rounding\<close>





lemma floor_int_half: "\<lfloor>(of_int m :: rat) + 1 / 2\<rfloor> = m"
  by linarith

lemma quantize_half_up_of_int: "quantize_half_up (of_int n) = of_int n"
proof (cases "0 \<le> n")
  case True
  have "\<lfloor>(of_int (n * 100) :: rat) + 1 / 2\<rfloor> = n * 100" by (rule floor_int_half)
  with True show ?thesis by (simp add: quantize_half_up_def)
next
  case False
  have "\<lfloor>(of_int (- n * 100) :: rat) + 1 / 2\<rfloor> = - n * 100" by (rule floor_int_half)
  with False show ?thesis by (simp add: quantize_half_up_def)
qed

lemma quantize_half_up_numeral: "quantize_half_up (numeral k) = numeral k"
  using quantize_half_up_of_int [of "numeral k"] by simp

subsection \<open>Evaluating the example\<close>

lemmas example_defs = example_session_def example_member_def example_today_def

lemmas premium_defs =
  calculate_premium_def get_config_def Let_def dec_div_def
  config_members_def config_benefit_selections_def config_tc_selections_def
  calculate_member_premium_def member_premium_step_def selection_template_def
  tc_selection_factor_def tc_selection_option_def
  get_age_band_multiplier_def age_def or_zero_def calculate_factor_breakdown_def
  calculate_admin_fee_def calculate_tpa_fee_def store_member_premiums_def
  save_calculation_log_def

lemma example_config:
  "get_config example_session ''cfg-1'' =
     Some \<lparr>config_id = ''cfg-1'', quote_number = ''Q202506010001'', company_name = ''Acme'',
          participant_count = 5, policy_status = DRAFT, total_base_premium = None,
          total_adjusted_premium = None, total_factor_multiplier = None\<rparr>"
  by (simp add: get_config_def example_session_def)

lemma example_config_empty:
  "get_config example_session ''cfg-0'' =
     Some \<lparr>config_id = ''cfg-0'', quote_number = ''Q202506010002'', company_name = ''Empty'',
          participant_count = 0, policy_status = DRAFT, total_base_premium = None,
          total_adjusted_premium = None, total_factor_multiplier = None\<rparr>"
  by (simp add: get_config_def example_session_def)

lemma example_total_premium:
  "\<exists>s' r. calculate_premium example_today example_session ''cfg-1'' True = Inr (s', r)
     \<and> r_total_premium r = 7975000"
  by (simp add: premium_defs example_defs quantize_half_up_numeral)



subsection \<open>Fees and total (C1)\<close>



subsection \<open>Per-member average (C8)\<close>

text \<open>
  C8. For every configuration \<^verbatim>\<open>calculate_premium\<close> returns (no division error is
  raised); with \<open>participant_count = 0\<close> the per-member average is \<open>0\<close>, and with
  \<open>participant_count > 0\<close> it is \<open>total_premium / participant_count\<close>.
\<close>

theorem calculate_premium_per_member_average:
  assumes "get_config s cid = Some config"
  shows "\<exists>s' r. calculate_premium today s cid save = Inr (s', r)
     \<and> (participant_count config = 0 \<longrightarrow> r_per_member_average r = 0)
     \<and> (participant_count config > 0 \<longrightarrow>
           r_per_member_average r = r_total_premium r / of_int (participant_count config))"
  using assms
  by (auto simp: calculate_premium_def Let_def dec_div_def)

theorem calculate_premium_per_member_average_witness:
  "(\<exists>s' r. calculate_premium example_today example_session ''cfg-0'' False = Inr (s', r)
       \<and> r_per_member_average r = 0)
   \<and> (\<exists>s' r. calculate_premium example_today example_session ''cfg-1'' True = Inr (s', r)
       \<and> r_total_premium r = 7975000 \<and> r_per_member_average r = 1595000)"
proof
  show "\<exists>s' r. calculate_premium example_today example_session ''cfg-0'' False = Inr (s', r)
       \<and> r_per_member_average r = 0"
    using calculate_premium_per_member_average [OF example_config_empty, of example_today False]
    by simp
next
  obtain s' r where run: "calculate_premium example_today example_session ''cfg-1'' True = Inr (s', r)"
    and total: "r_total_premium r = 7975000"
    using example_total_premium by blast
  from calculate_premium_per_member_average [OF example_config, of example_today True] run
  have "r_per_member_average r = r_total_premium r / of_int 5"
    by auto
  with total have "r_per_member_average r = 1595000" by simp
  with run total
  show "\<exists>s' r. calculate_premium example_today example_session ''cfg-1'' True = Inr (s', r)
       \<and> r_total_premium r = 7975000 \<and> r_per_member_average r = 1595000"
    by blast
qed

subsection \<open>Submission gate (C4) and a toggle without a row (C9)\<close>

lemma find_update_first:
  assumes "\<And>x. p x \<Longrightarrow> p (f x)"
  shows "find p (update_first p f xs) = map_option f (find p xs)"
  using assms by (induction xs) auto

lemma get_config_id: "get_config s cid = Some config \<Longrightarrow> config_id config = cid"
  by (auto simp: get_config_def find_Some_iff)

lemma calculate_premium_config:
  assumes "get_config s cid = Some config"
  shows "\<exists>s' r. calculate_premium today s cid save = Inr (s', r)
     \<and> get_config s' cid =
         Some (config\<lparr>total_base_premium := Some (r_base_premium r),
                      total_factor_multiplier := Some (r_total_multiplier r),
                      total_adjusted_premium := Some (r_adjusted_premium r)\<rparr>)"
  using assms
  by (auto simp: calculate_premium_def Let_def dec_div_def get_config_def find_update_first
      store_member_premiums_def save_calculation_log_def)

lemma configs_create_approval_workflow [simp]:
  "configs (create_approval_workflow s config) = configs s"
  by (simp add: create_approval_workflow_def split: option.split)

lemma validate_configuration_iff:
  assumes "config_id config = cid"
  shows "validate_configuration s config =
     (if participant_count config < 5
      then Some (ValueError [PStr ''Minimum 5 participants required''])
      else if \<not> (\<exists>b \<in> set (benefit_selections s). bs_config_id b = cid \<and> is_selected b)
      then Some (ValueError [PStr ''At least one benefit must be selected''])
      else if \<not> (\<exists>m \<in> set (members s). pm_config_id m = cid \<and> member_status m = ''ACTIVE'')
      then Some (ValueError [PStr ''No members enrolled''])
      else None)"
  using assms
  by (auto simp: validate_configuration_def list_ex_iff config_benefit_selections_def
      filter_empty_conv)

lemma submit_success:
  assumes "get_config s cid = Some config" "policy_status config = DRAFT"
    "validate_configuration s config = None"
  shows "\<exists>s' c'. submit_for_approval today s cid who = Inr (s', c')
            \<and> policy_status c' = QUOTED \<and> get_config s' cid = Some c'"
proof -
  from calculate_premium_config [OF assms(1), of today True]
  obtain s1 r where run: "calculate_premium today s cid True = Inr (s1, r)"
    and stored: "get_config s1 cid =
         Some (config\<lparr>total_base_premium := Some (r_base_premium r),
                      total_factor_multiplier := Some (r_total_multiplier r),
                      total_adjusted_premium := Some (r_adjusted_premium r)\<rparr>)"
    by blast
  define s2 where "s2 = s1\<lparr>configs := update_first (\<lambda>c. config_id c = cid)
                                        (\<lambda>c. c\<lparr>policy_status := QUOTED\<rparr>) (configs s1)\<rparr>"
  from stored have "\<exists>c2. get_config s2 cid = Some c2 \<and> policy_status c2 = QUOTED"
    by (simp add: s2_def get_config_def find_update_first)
  then obtain c2 where c2: "get_config s2 cid = Some c2" "policy_status c2 = QUOTED" by blast
  have "submit_for_approval today s cid who = Inr (create_approval_workflow s2 c2, c2)"
    using assms run c2 by (simp add: submit_for_approval_def s2_def Let_def)
  moreover have "get_config (create_approval_workflow s2 c2) cid = Some c2"
    using c2 by (simp add: get_config_def)
  ultimately show ?thesis using c2 by blast
qed

text \<open>
  C4. For every configuration, \<^verbatim>\<open>submit_for_approval\<close> fails, with the first violated
  reason in the order status, participants, benefits, members, if and only if
  \<open>status \<noteq> DRAFT\<close>, or \<open>participant_count < 5\<close>, or no benefit selection of the
  configuration is selected, or it has no ACTIVE member; otherwise it succeeds and the
  configuration, as returned and as stored, has status QUOTED.
\<close>

theorem submit_for_approval_gate:
  assumes "get_config s cid = Some config"
  shows "(if policy_status config \<noteq> DRAFT
          then submit_for_approval today s cid who =
                 Inl (ValueError [PStr ''Only draft configurations can be submitted for approval''])
          else if participant_count config < 5
          then submit_for_approval today s cid who =
                 Inl (ValueError [PStr ''Minimum 5 participants required''])
          else if \<not> (\<exists>b \<in> set (benefit_selections s). bs_config_id b = cid \<and> is_selected b)
          then submit_for_approval today s cid who =
                 Inl (ValueError [PStr ''At least one benefit must be selected''])
          else if \<not> (\<exists>m \<in> set (members s). pm_config_id m = cid \<and> member_status m = ''ACTIVE'')
          then submit_for_approval today s cid who = Inl (ValueError [PStr ''No members enrolled''])
          else \<exists>s' c'. submit_for_approval today s cid who = Inr (s', c')
                  \<and> policy_status c' = QUOTED \<and> get_config s' cid = Some c')
     \<and> (isl (submit_for_approval today s cid who) \<longleftrightarrow>
           policy_status config \<noteq> DRAFT
           \<or> participant_count config < 5
           \<or> \<not> (\<exists>b \<in> set (benefit_selections s). bs_config_id b = cid \<and> is_selected b)
           \<or> \<not> (\<exists>m \<in> set (members s). pm_config_id m = cid \<and> member_status m = ''ACTIVE''))"
proof -
  note cid = get_config_id [OF assms]
  note v = validate_configuration_iff [OF cid, of s]
  have fail: "submit_for_approval today s cid who = Inl e"
    if "policy_status config = DRAFT" "validate_configuration s config = Some e" for e
    using that assms by (simp add: submit_for_approval_def)
  consider (status) "policy_status config \<noteq> DRAFT"
    | (invalid) e where "policy_status config = DRAFT" "validate_configuration s config = Some e"
    | (valid) "policy_status config = DRAFT" "validate_configuration s config = None"
    by (cases "validate_configuration s config") auto
  then show ?thesis
  proof cases
    case status
    then have "submit_for_approval today s cid who =
                 Inl (ValueError [PStr ''Only draft configurations can be submitted for approval''])"
      using assms by (simp add: submit_for_approval_def)
    with status show ?thesis by simp
  next
    case invalid
    from fail [OF invalid] have "submit_for_approval today s cid who = Inl e" .
    with invalid show ?thesis
      by (auto simp: v split: if_splits)
  next
    case valid
    from submit_success [OF assms valid, of today who]
    obtain s' c' where "submit_for_approval today s cid who = Inr (s', c')"
      "policy_status c' = QUOTED" "get_config s' cid = Some c'" by blast
    with valid show ?thesis
      by (auto simp: v split: if_splits)
  qed
qed

theorem submit_for_approval_gate_witness:
  "submit_for_approval example_today example_session ''cfg-0'' ''officer'' =
     Inl (ValueError [PStr ''Minimum 5 participants required''])
   \<and> (\<exists>s' c'. submit_for_approval example_today example_session ''cfg-1'' ''officer'' = Inr (s', c')
          \<and> policy_status c' = QUOTED \<and> get_config s' ''cfg-1'' = Some c')"
  using submit_for_approval_gate [OF example_config_empty, of example_today "''officer''"]
    submit_for_approval_gate [OF example_config, of example_today "''officer''"]
  by (simp add: example_defs)

text \<open>
  C9. If the configuration has no BenefitSelection row for the category,
  \<^verbatim>\<open>toggle_benefit_category\<close> returns \<^verbatim>\<open>None\<close> and the session is unchanged; no error
  is raised.
\<close>

theorem toggle_benefit_category_missing_row:
  assumes "\<forall>b \<in> set (benefit_selections s).
             \<not> (bs_config_id b = cid \<and> benefit_category b = category_value cat)"
  shows "toggle_benefit_category today s cid cat selected = Inr (s, None)"
proof -
  from assms have "find (\<lambda>b. bs_config_id b = cid \<and> benefit_category b = category_value cat)
                     (benefit_selections s) = None"
    by (simp add: find_None_iff)
  then show ?thesis by (simp add: toggle_benefit_category_def)
qed

theorem toggle_benefit_category_missing_row_witness:
  "toggle_benefit_category example_today example_session ''cfg-1'' CAT_DENTAL True
     = Inr (example_session, None)
   \<and> list_all (\<lambda>b. benefit_category b \<noteq> ''DENTAL'') (benefit_selections example_session)"
  using toggle_benefit_category_missing_row
          [of example_session "''cfg-1''" CAT_DENTAL example_today True]
  by (simp add: example_session_def)


subsection \<open>Maternity loading (C6)\<close>

text \<open>
  C6 (the code at a failing input). The example configuration has five participants and
  no ACTIVE female member; its three female members aged 35 are TERMINATED. The claim
  gives MATERNITY, toggled on, the small-group loading \<open>1.500\<close> alone. The engine's
  member query has no status filter, counts the three terminated members, finds
  \<open>3 > 0.4 \<times> 5\<close> and returns \<open>1.500 \<times> 1.150\<close>.
\<close>

theorem toggle_maternity_counts_terminated_members:
  "filter (\<lambda>m. member_status m = ''ACTIVE'' \<and> gender m = ''FEMALE'') (members example_session) = []
   \<and> (\<exists>s' b. toggle_benefit_category example_today example_session ''cfg-1'' CAT_MATERNITY True
                 = Inr (s', Some b)
          \<and> category_factor b = 1.500 * 1.150)"
  by (simp add: toggle_benefit_category_def calculate_category_factor_def get_config_def
      age_def Let_def example_defs)

subsection \<open>T&C update (C7)\<close>
















section \<open>Properties of the validation engine\<close>

subsection \<open>Annual limit (C2)\<close>

text \<open>
  C2, as the claim states it, fails: with the limit used up exactly
  (\<open>used_amount = limit_value\<close>) and nothing claimed, the rule returns no result, where
  the claim has it FAILED. The rule reports only a claimed amount above the remainder.
\<close>

theorem validate_annual_limit_claim_counterexample:
  "limit_value example_benefit = Some 2000000
   \<and> annual_used (example_claim\<lparr>claimed_amount := 0,
                       accumulator_balances := [''IP_ROOM_annual'' \<mapsto> 2000000]\<rparr>) example_benefit
       = 2000000
   \<and> validate_annual_limit (example_claim\<lparr>claimed_amount := 0,
                       accumulator_balances := [''IP_ROOM_annual'' \<mapsto> 2000000]\<rparr>) example_benefit
       = None"
  by (simp add: validate_annual_limit_def annual_used_def truthy_decimal_def example_benefit_def
      example_claim_def)

text \<open>
  C2, amended. For a benefit whose \<^verbatim>\<open>limit_value\<close> is set and not zero, the annual-limit
  rule (registered as VAL003) yields a result exactly when \<open>claimed_amount\<close> exceeds
  \<open>remaining = limit_value - used_amount\<close>; that result is FAILED when
  \<open>used_amount \<ge> limit_value\<close> and WARNING otherwise, and in both cases has
  \<open>can_override = true\<close> and \<open>required_authority_level = 2\<close>.
\<close>

theorem validate_annual_limit_result:
  assumes "limit_value benefit = Some limit" and "limit \<noteq> 0"
  shows "(if claimed_amount ctx > limit - annual_used ctx benefit
          then \<exists>r. validate_annual_limit ctx benefit = Some r
                 \<and> status r = (if annual_used ctx benefit \<ge> limit then FAILED else WARNING)
                 \<and> can_override r \<and> required_authority_level r = 2
          else validate_annual_limit ctx benefit = None)"
  using assms
  by (simp add: validate_annual_limit_def annual_used_def truthy_decimal_def Let_def)

theorem validate_annual_limit_result_witness:
  "(\<exists>r. validate_annual_limit example_claim example_benefit = Some r
        \<and> status r = WARNING \<and> can_override r \<and> required_authority_level r = 2)
   \<and> (\<exists>r. validate_annual_limit
              (example_claim\<lparr>accumulator_balances := [''IP_ROOM_annual'' \<mapsto> 2000000]\<rparr>)
              example_benefit = Some r
        \<and> status r = FAILED \<and> can_override r \<and> required_authority_level r = 2)
   \<and> validate_annual_limit (example_claim\<lparr>claimed_amount := 200000\<rparr>) example_benefit = None"
  using validate_annual_limit_result [of example_benefit 2000000 example_claim]
    validate_annual_limit_result [of example_benefit 2000000
      "example_claim\<lparr>accumulator_balances := [''IP_ROOM_annual'' \<mapsto> 2000000]\<rparr>"]
    validate_annual_limit_result [of example_benefit 2000000
      "example_claim\<lparr>claimed_amount := 200000\<rparr>"]
  by (simp add: annual_used_def example_benefit_def example_claim_def)

subsection \<open>Allowed amount with a zero limit (C10)\<close>

text \<open>
  C10. With \<^verbatim>\<open>limit_value\<close> exactly \<open>0\<close>, \<^verbatim>\<open>calculate_allowed_amount\<close> treats the
  benefit as unlimited: it returns \<open>claimed_amount \<times> claim_settlement_pct / 100\<close>.
\<close>

theorem calculate_allowed_amount_zero_limit:
  assumes "limit_value benefit = Some 0"
  shows "calculate_allowed_amount ctx benefit
           = claimed_amount ctx * of_int (claim_settlement_pct benefit) / 100"
  using assms by (simp add: calculate_allowed_amount_def truthy_decimal_def)

theorem calculate_allowed_amount_zero_limit_witness:
  "limit_value (example_benefit\<lparr>limit_value := Some 0\<rparr>) = Some 0
   \<and> calculate_allowed_amount example_claim (example_benefit\<lparr>limit_value := Some 0\<rparr>) = 500000"
  using calculate_allowed_amount_zero_limit
          [of "example_benefit\<lparr>limit_value := Some 0\<rparr>" example_claim]
  by (simp add: example_benefit_def example_claim_def)


end
